theory Spec2Isabelle
  imports Complex_Main
begin

section \<open>Alert severity labels (tips-alerts component)\<close>

text \<open>
  The component \<open>TipsAlerts\<close> renders every alert with a badge whose text comes from
  \<open>getAlertLevelText\<close> and whose colour classes come from \<open>getAlertLevelColor\<close>.
  Both are chains of \<open>if (level >= k) return ...\<close> with the thresholds 5, 4 and 3.
  The level is an integer here; the labels are the strings the source returns.
\<close>

definition getAlertLevelText :: "int \<Rightarrow> string" where
  "getAlertLevelText level =
     (if level \<ge> 5 then ''Critical''
      else if level \<ge> 4 then ''High''
      else if level \<ge> 3 then ''Medium''
      else ''Low'')"

definition getAlertLevelColor :: "int \<Rightarrow> string" where
  "getAlertLevelColor level =
     (if level \<ge> 5 then ''bg-red-100 text-red-800 border-red-200 dark:bg-red-900/30 dark:text-red-400 dark:border-red-800''
      else if level \<ge> 4 then ''bg-orange-100 text-orange-800 border-orange-200 dark:bg-orange-900/30 dark:text-orange-400 dark:border-orange-800''
      else if level \<ge> 3 then ''bg-yellow-100 text-yellow-800 border-yellow-200 dark:bg-yellow-900/30 dark:text-yellow-400 dark:border-yellow-800''
      else ''bg-blue-100 text-blue-800 border-blue-200 dark:bg-blue-900/30 dark:text-blue-400 dark:border-blue-800'')"

text \<open>The severity order on labels: Low < Medium < High < Critical.\<close>

definition severity_rank :: "string \<Rightarrow> nat" where
  "severity_rank l =
     (if l = ''Critical'' then 3
      else if l = ''High'' then 2
      else if l = ''Medium'' then 1
      else 0)"

section \<open>JavaScript helpers\<close>

text \<open>
  \<open>Array.prototype.join\<close> on an array of strings, and the decimal rendering of an
  integer inside a template literal. A JSON number field that may be \<open>null\<close> is an
  \<open>int option\<close>: \<open>null > 0\<close> is false, \<open>null + n\<close> is \<open>n\<close>, and a template literal
  prints it as \<open>null\<close>.
\<close>

fun join_js :: "string \<Rightarrow> string list \<Rightarrow> string" where
  "join_js sep [] = []"
| "join_js sep [x] = x"
| "join_js sep (x # y # ys) = x @ sep @ join_js sep (y # ys)"

definition digit_char :: "nat \<Rightarrow> char" where
  "digit_char d = ''0123456789'' ! d"

function decimal :: "nat \<Rightarrow> string" where
  "decimal n = (if 10 \<le> n then decimal (n div 10) @ [digit_char (n mod 10)] else [digit_char n])"
  by pat_completeness auto
termination
  by (relation "measure id") auto

definition template_int :: "int \<Rightarrow> string" where
  "template_int i = (if 0 \<le> i then decimal (nat i) else CHR ''-'' # decimal (nat (- i)))"

definition template_num :: "int option \<Rightarrow> string" where
  "template_num v = (case v of None \<Rightarrow> ''null'' | Some i \<Rightarrow> template_int i)"

definition js_gt_zero :: "int option \<Rightarrow> bool" where
  "js_gt_zero v = (case v of None \<Rightarrow> False | Some i \<Rightarrow> i > 0)"

definition js_add :: "int option \<Rightarrow> int option \<Rightarrow> int" where
  "js_add a b = (case a of None \<Rightarrow> 0 | Some i \<Rightarrow> i) + (case b of None \<Rightarrow> 0 | Some j \<Rightarrow> j)"

section \<open>Report records and their conversion for the UI (reports pages)\<close>

text \<open>
  A row of the \<open>reports\<close> table as the list and detail endpoints return it.
  \<open>report_domains\<close> is \<open>None\<close> when the field is not an array.
\<close>

record api_report =
  report_id :: string
  report_date :: string
  report_status :: string
  created_at :: string
  report_domains :: "string list option"
  report_alerts :: "int option"
  report_tips :: "int option"
  user_email :: string
  path_to_report :: string
  report_alerts_tips_json_path :: string

record impact =
  level :: string
  description :: string

record report =
  id_field :: string
  title :: string
  status :: string
  createdAt :: string
  hasDiff :: bool
  category :: string
  report_impact :: impact
  date :: string
  summary :: string
  report_user_email :: string
  report_path_to_report :: string
  report_json_path :: string

record impact_detail = impact +
  score :: int

record report_detail =
  detail_id :: string
  detail_title :: string
  detail_category :: string
  detail_impact :: impact_detail
  detail_createdAt :: string
  detail_summary :: string
  detail_body :: string
  entities :: "string list"
  detail_sources :: "(string \<times> string) list"
  metadataJson :: string
  detail_hasDiff :: bool

text \<open>
  The callback of \<open>apiReports.map\<close> in \<open>fetchReports\<close>. The locale-dependent
  \<open>new Date(d).toLocaleDateString()\<close> is the parameter \<open>fmt\<close>.
\<close>

definition convertReport :: "(string \<Rightarrow> string) \<Rightarrow> api_report \<Rightarrow> report" where
  "convertReport fmt r =
     \<lparr> id_field = report_id r,
       title = ''Report '' @ fmt (report_date r),
       status = report_status r,
       createdAt = created_at r,
       hasDiff = False,
       category = (case report_domains r of Some ds \<Rightarrow> join_js '', '' ds | None \<Rightarrow> ''Mixed''),
       report_impact =
         \<lparr> level = (if js_gt_zero (report_alerts r) then ''High'' else ''Medium''),
           description = template_num (report_tips r) @ '' tips, '' @ template_num (report_alerts r) @ '' alerts'' \<rparr>,
       date = report_date r,
       summary = ''Generated report with '' @ template_num (report_tips r) @ '' tips and ''
                   @ template_num (report_alerts r) @ '' alerts'',
       report_user_email = user_email r,
       report_path_to_report = path_to_report r,
       report_json_path = report_alerts_tips_json_path r \<rparr>"

definition convertedReports :: "(string \<Rightarrow> string) \<Rightarrow> api_report list \<Rightarrow> report list" where
  "convertedReports fmt apiReports = map (convertReport fmt) apiReports"

text \<open>
  The object literal \<open>convertedReport\<close> in \<open>fetchReport\<close> of the detail page; its
  fields \<open>deadline\<close> and \<open>diff\<close> are undefined and left out.
  \<open>report_domains?.join(', ') || 'Mixed'\<close> falls back to Mixed on a missing array and
  on an empty joined string.
\<close>

definition joinedDomains :: "api_report \<Rightarrow> string option" where
  "joinedDomains r = map_option (join_js '', '') (report_domains r)"

definition convertReportDetail :: "(string \<Rightarrow> string) \<Rightarrow> api_report \<Rightarrow> report_detail" where
  "convertReportDetail fmt r =
     \<lparr> detail_id = report_id r,
       detail_title = ''Report '' @ fmt (report_date r),
       detail_category =
         (case joinedDomains r of None \<Rightarrow> ''Mixed'' | Some s \<Rightarrow> if s = [] then ''Mixed'' else s),
       detail_impact =
         \<lparr> level = (if js_gt_zero (report_alerts r) then ''High'' else ''Medium''),
           description = template_num (report_tips r) @ '' tips, '' @ template_num (report_alerts r) @ '' alerts'',
           score = js_add (report_alerts r) (report_tips r) \<rparr>,
       detail_createdAt = created_at r,
       detail_summary = ''Generated report with '' @ template_num (report_tips r) @ '' tips and ''
                   @ template_num (report_alerts r) @ '' alerts'',
       detail_body = ''This report contains analysis across ''
                   @ (case joinedDomains r of None \<Rightarrow> ''undefined'' | Some s \<Rightarrow> s)
                   @ '' domains with '' @ template_num (report_tips r) @ '' actionable tips and ''
                   @ template_num (report_alerts r) @ '' alerts for business decision-making.'',
       entities = (case report_domains r of None \<Rightarrow> [] | Some ds \<Rightarrow> ds),
       detail_sources = [],
       metadataJson = [],
       detail_hasDiff = False \<rparr>"

section \<open>Tips and alerts component\<close>

text \<open>
  The interfaces \<open>Alert\<close> and \<open>TipsAlertsData\<close>. The property \<open>tipsAlerts\<close> of the
  component is either an object with keys, taken to have the declared shape, or it is
  missing or the empty object the page starts with (\<open>NoData\<close>).
\<close>

record Alert =
  alert :: string
  alert_level :: int

record TipsAlertsData =
  generated_at :: string
  tips :: "string list"
  alerts :: "Alert list"
  tips_status :: string

datatype tips_prop = NoData | Data TipsAlertsData

text \<open>
  \<open>loadTipsAlerts\<close>: data with keys is stored as it is; otherwise the component stores a
  placeholder with one tip and one alert of level 1. \<open>now\<close> is
  \<open>new Date().toISOString()\<close>.
\<close>

definition loadTipsAlerts :: "string \<Rightarrow> tips_prop \<Rightarrow> TipsAlertsData" where
  "loadTipsAlerts now tipsAlerts =
     (case tipsAlerts of
        Data d \<Rightarrow> d
      | NoData \<Rightarrow>
          \<lparr> generated_at = now,
            tips = [''No tips available - the tips and alerts data could not be loaded from storage.''],
            alerts = [\<lparr> alert = ''No alerts available - the tips and alerts data could not be loaded from storage.'',
                        alert_level = 1 \<rparr>],
            tips_status = ''error'' \<rparr>)"

text \<open>
  The detail page keeps \<open>tipsAlerts\<close> in its state, initially the empty object, and
  replaces it by \<open>apiData.tips_alerts\<close> when the response has one.
\<close>

definition page_tipsAlerts :: "TipsAlertsData option \<Rightarrow> tips_prop" where
  "page_tipsAlerts tips_alerts = (case tips_alerts of None \<Rightarrow> NoData | Some d \<Rightarrow> Data d)"

text \<open>
  The two \<open>map((x, index) => ...)\<close> calls of the render: each tip is shown under the
  heading \<open>Strategic Tip #{index + 1}\<close>, each alert under \<open>Alert #{index + 1}\<close> with
  its badge.
\<close>

definition renderTips :: "string list \<Rightarrow> (nat \<times> string) list" where
  "renderTips ts = map (\<lambda>(index, tip). (index + 1, tip)) (enumerate 0 ts)"

record alert_row =
  alert_number :: nat
  badge_class :: string
  badge_text :: string
  alert_text :: string

definition renderAlerts :: "Alert list \<Rightarrow> alert_row list" where
  "renderAlerts as =
     map (\<lambda>(index, a).
            \<lparr> alert_number = index + 1,
              badge_class = ''text-xs '' @ getAlertLevelColor (alert_level a),
              badge_text = getAlertLevelText (alert_level a) @ '' (Level '' @ template_int (alert_level a) @ '')'',
              alert_text = alert a \<rparr>)
         (enumerate 0 as)"

definition displayedTips :: "string \<Rightarrow> TipsAlertsData option \<Rightarrow> (nat \<times> string) list" where
  "displayedTips now tips_alerts = renderTips (tips (loadTipsAlerts now (page_tipsAlerts tips_alerts)))"

section \<open>Reports table: pagination\<close>

text \<open>
  \<open>Array.prototype.slice(start, stop)\<close> on integer arguments: a negative index counts
  from the end, both are clamped to the array, and an empty range gives the empty array.
\<close>

definition slice_js :: "'a list \<Rightarrow> int \<Rightarrow> int \<Rightarrow> 'a list" where
  "slice_js xs start stop =
     (let len = int (length xs);
          k = (if start < 0 then max (len + start) 0 else min start len);
          final = (if stop < 0 then max (len + stop) 0 else min stop len)
      in take (nat (max (final - k) 0)) (drop (nat k) xs))"

text \<open>
  \<open>Math.ceil(reports.length / pageSize)\<close>: a division by zero gives Infinity, or NaN
  for an empty list.
\<close>

datatype js_number = Finite int | PosInfinity | NaN

definition paginatedReports :: "'a list \<Rightarrow> int \<Rightarrow> int \<Rightarrow> 'a list" where
  "paginatedReports reports page pageSize = slice_js reports ((page - 1) * pageSize) (page * pageSize)"

definition totalPages :: "'a list \<Rightarrow> int \<Rightarrow> js_number" where
  "totalPages reports pageSize =
     (if pageSize = 0 then (if length reports = 0 then NaN else PosInfinity)
      else Finite \<lceil>real (length reports) / real_of_int pageSize\<rceil>)"

text \<open>
  What \<open>ReportsTable\<close> shows: a skeleton while loading, a notice for an empty list,
  otherwise the rows of the current page and the pager \<open>Page {page} of {totalPages}\<close>.
\<close>

datatype 'a table_view = Skeleton | NoReportsFound | Table "'a list" int js_number

definition ReportsTable :: "'a list \<Rightarrow> bool \<Rightarrow> int \<Rightarrow> int \<Rightarrow> 'a table_view" where
  "ReportsTable reports isLoading page pageSize =
     (if isLoading then Skeleton
      else if length reports = 0 then NoReportsFound
      else Table (paginatedReports reports page pageSize) page (totalPages reports pageSize))"

fun displayed_rows :: "'a table_view \<Rightarrow> 'a list" where
  "displayed_rows (Table rows p t) = rows"
| "displayed_rows Skeleton = []"
| "displayed_rows NoReportsFound = []"

section \<open>Chat store: the streaming consumer\<close>

text \<open>
  The store of the chat client (\<open>agentStore\<close>). Time stamps of messages and threads
  are left out; the values of \<open>Date.now()\<close> that go into identifiers are parameters.
\<close>

datatype role = User | Assistant

record Message =
  msg_id :: string
  content :: string
  role :: role

record ConversationThread =
  thread_id :: string
  thread_title :: string
  messages :: "Message list"

record AgentState =
  currentThread :: "ConversationThread option"
  threads :: "ConversationThread list"
  isLoading :: bool
  error :: "string option"

definition createNewThread :: "string \<Rightarrow> AgentState \<Rightarrow> AgentState" where
  "createNewThread now st =
     (let newThread = \<lparr> thread_id = ''thread_'' @ now, thread_title = ''Nowa rozmowa'', messages = [] \<rparr>
      in st\<lparr> currentThread := Some newThread, threads := newThread # threads st \<rparr>)"

text \<open>
  \<open>String.prototype.split\<close> on one separator character, \<open>startsWith\<close>, and the
  line feed the consumer splits at.
\<close>

definition newline :: char where
  "newline = CHR 0x0A"

fun split_js :: "char \<Rightarrow> string \<Rightarrow> string list" where
  "split_js c [] = [[]]"
| "split_js c (x # xs) =
     (if x = c then [] # split_js c xs
      else (let ls = split_js c xs in (x # hd ls) # tl ls))"

definition startsWith :: "string \<Rightarrow> string \<Rightarrow> bool" where
  "startsWith s p = (take (length p) s = p)"

text \<open>
  The state update made after each appended chunk: the messages of the current thread
  whose id is the assistant message's get the accumulated content, and the thread is
  replaced in the list of threads. Without a current thread the update throws.
\<close>

definition update_assistant :: "string \<Rightarrow> string \<Rightarrow> AgentState \<Rightarrow> AgentState option" where
  "update_assistant aid accumulatedContent st =
     (case currentThread st of
        None \<Rightarrow> None
      | Some cur \<Rightarrow>
          (let updatedMessages =
                 map (\<lambda>msg. if msg_id msg = aid then msg\<lparr> content := accumulatedContent \<rparr> else msg)
                     (messages cur);
               updatedThread = cur\<lparr> messages := updatedMessages \<rparr>
           in Some (st\<lparr> currentThread := Some updatedThread,
                         threads := map (\<lambda>t. if thread_id t = thread_id updatedThread then updatedThread else t)
                                        (threads st) \<rparr>)))"

text \<open>
  The inner \<open>for (const line of lines)\<close>: a line that starts with \<open>data: \<close> carries
  the payload after these six characters; the payload \<open>[DONE]\<close> ends the whole
  action, any other payload is appended. The loop state is the accumulated content and
  the store.
\<close>

datatype loop_result =
    Continue string AgentState
  | Returned string AgentState
  | Thrown string AgentState

fun process_lines :: "string \<Rightarrow> string list \<Rightarrow> string \<Rightarrow> AgentState \<Rightarrow> loop_result" where
  "process_lines aid [] acc st = Continue acc st"
| "process_lines aid (line # lines) acc st =
     (if startsWith line ''data: '' then
        (let data = drop 6 line in
         if data = ''[DONE]'' then Returned acc (st\<lparr> isLoading := False \<rparr>)
         else (case update_assistant aid (acc @ data) st of
                 None \<Rightarrow> Thrown (acc @ data) st
               | Some st' \<Rightarrow> process_lines aid lines (acc @ data) st'))
      else process_lines aid lines acc st)"

text \<open>
  The outer \<open>while (true)\<close> over the reads of the response body. The body is the list
  of its reads, each a decoded chunk or a failure of \<open>reader.read()\<close>; after the last
  one the reader reports \<open>done\<close> and the loop breaks. An exception reaches the
  \<open>catch\<close> block, which stops the loading flag and stores the message.
\<close>

datatype read_result = Value string | ReadFailure string

definition catch_error :: "string \<Rightarrow> AgentState \<Rightarrow> AgentState" where
  "catch_error msg st = st\<lparr> isLoading := False, error := Some msg \<rparr>"

fun read_loop :: "string \<Rightarrow> read_result list \<Rightarrow> string \<Rightarrow> AgentState \<Rightarrow> string \<times> AgentState" where
  "read_loop aid [] acc st = (acc, st)"
| "read_loop aid (ReadFailure e # rest) acc st = (acc, catch_error e st)"
| "read_loop aid (Value chunk # rest) acc st =
     (case process_lines aid (split_js newline chunk) acc st of
        Continue acc' st' \<Rightarrow> read_loop aid rest acc' st'
      | Returned acc' st' \<Rightarrow> (acc', st')
      | Thrown acc' st' \<Rightarrow> (acc', catch_error ''TypeError'' st'))"

text \<open>
  The action \<open>sendStreamingMessage\<close>. The answer of \<open>fetch\<close> is a failure, or a
  response with its \<open>ok\<close> flag, its status and its body, if it has one.
\<close>

datatype response = FetchFailed string | Response bool nat "read_result list option"

definition sendStreamingMessage ::
  "string \<Rightarrow> string \<Rightarrow> string \<Rightarrow> string \<Rightarrow> response \<Rightarrow> AgentState \<Rightarrow> AgentState" where
  "sendStreamingMessage t_thread t_user t_assistant content' resp st0 =
     (let st1 = (case currentThread st0 of None \<Rightarrow> createNewThread t_thread st0 | Some t \<Rightarrow> st0);
          thread = (case currentThread st1 of
                      Some t \<Rightarrow> t
                    | None \<Rightarrow> \<lparr> thread_id = ''thread_'' @ t_thread, thread_title = ''Nowa rozmowa'', messages = [] \<rparr>);
          userMessage = \<lparr> msg_id = ''msg_'' @ t_user, content = content', role = User \<rparr>;
          assistantMessage = \<lparr> msg_id = ''msg_'' @ t_assistant @ ''_assistant'', content = [], role = Assistant \<rparr>;
          st2 = st1\<lparr> isLoading := True, error := None,
                     currentThread := Some (thread\<lparr> messages := messages thread @ [userMessage, assistantMessage] \<rparr>) \<rparr>
      in case resp of
           FetchFailed e \<Rightarrow> catch_error e st2
         | Response ok code body \<Rightarrow>
             if \<not> ok then catch_error (''HTTP error! status: '' @ decimal code) st2
             else (case body of
                     None \<Rightarrow> st2
                   | Some reads \<Rightarrow> snd (read_loop (msg_id assistantMessage) reads [] st2)))"

text \<open>
  The frames as the consumer sees them: the payloads of the lines that start with
  \<open>data: \<close>, read by read. A frame as the server writes it is \<open>data: \<close>, the
  payload and two line feeds. The assistant message of the action is the last message
  of the current thread, where \<open>sendStreamingMessage\<close> has put it.
\<close>

definition payloads :: "string list \<Rightarrow> string list" where
  "payloads chunks =
     map (drop 6) (filter (\<lambda>line. startsWith line ''data: '') (concat (map (split_js newline) chunks)))"

definition frame :: "string \<Rightarrow> string" where
  "frame payload = ''data: '' @ payload @ [newline, newline]"

definition assistant_content :: "AgentState \<Rightarrow> string option" where
  "assistant_content st =
     (case currentThread st of
        None \<Rightarrow> None
      | Some cur \<Rightarrow> (if messages cur = [] then None else Some (content (last (messages cur)))))"

text \<open>
  For the proofs: the payloads of a list of lines, and the state of the store while the
  stream is consumed (the last message of the current thread is the assistant message
  with the content accumulated so far, and no error is stored).
\<close>

definition line_payloads :: "string list \<Rightarrow> string list" where
  "line_payloads lines = map (drop 6) (filter (\<lambda>line. startsWith line ''data: '') lines)"

definition streaming :: "string \<Rightarrow> string \<Rightarrow> bool \<Rightarrow> AgentState \<Rightarrow> bool" where
  "streaming aid acc loading st =
     (case currentThread st of
        None \<Rightarrow> False
      | Some cur \<Rightarrow> messages cur \<noteq> [] \<and> msg_id (last (messages cur)) = aid
                   \<and> content (last (messages cur)) = acc
                   \<and> isLoading st = loading \<and> error st = None)"

section \<open>API client: running the pipeline\<close>

text \<open>
  A parsed JSON value. An HTTP answer as \<open>fetch\<close> gives it: the request is rejected,
  or there is a response with its \<open>ok\<close> flag, its status and its body; the body is
  \<open>None\<close> when it is not JSON, in which case \<open>response.json()\<close> rejects.
\<close>

datatype json =
    JNull
  | JBool bool
  | JNum int
  | JStr string
  | JArr "json list"
  | JObj "(string \<times> json) list"

record http_response =
  ok :: bool
  http_status :: nat
  body :: "json option"

















text \<open>
  The request of \<open>runPipeline\<close>: a POST to \<open>/pipeline/run\<close> with the user's e-mail
  address and with the fixed list of domains in the query string.
\<close>

definition request_domains :: string where
  "request_domains = ''prawo,polityka,financial''"

definition runPipeline_params :: "string \<Rightarrow> (string \<times> string) list" where
  "runPipeline_params userEmail = [(''user_email'', userEmail), (''domains'', request_domains)]"

section \<open>Domain synthesis component\<close>

text \<open>
  \<open>loadDomainSynthesis\<close> keeps the object it is given when that has a key, and puts
  three notices in its place otherwise. The render has the three tabs \<open>prawo\<close>,
  \<open>polityka\<close> and \<open>financial\<close>, each with the text of its domain or, when that is
  missing or empty, with a fallback.
\<close>

definition loadDomainSynthesis :: "(string \<times> string) list option \<Rightarrow> (string \<times> string) list" where
  "loadDomainSynthesis domainSynthesis =
     (let unavailable =
            [(''prawo'', ''No legal domain analysis available - the domain synthesis files could not be loaded from storage.''),
             (''polityka'', ''No political domain analysis available - the domain synthesis files could not be loaded from storage.''),
             (''financial'', ''No financial domain analysis available - the domain synthesis files could not be loaded from storage.'')]
      in case domainSynthesis of
           None \<Rightarrow> unavailable
         | Some d \<Rightarrow> if length (map fst d) > 0 then d else unavailable)"

definition tab_content :: "(string \<times> string) list \<Rightarrow> string \<Rightarrow> string \<Rightarrow> string" where
  "tab_content domainData key fallback =
     (case map_of (rev domainData) key of
        None \<Rightarrow> fallback
      | Some s \<Rightarrow> if s = [] then fallback else s)"

definition DomainSynthesis :: "(string \<times> string) list option \<Rightarrow> (string \<times> string) list" where
  "DomainSynthesis domainSynthesis =
     (let domainData = loadDomainSynthesis domainSynthesis
      in [(''prawo'', tab_content domainData ''prawo'' ''No legal analysis available''),
          (''polityka'', tab_content domainData ''polityka'' ''No political analysis available''),
          (''financial'', tab_content domainData ''financial'' ''No financial analysis available'')])"

section \<open>Pipeline orchestrator\<close>

text \<open>
  The orchestrator and its stages run in the backend, whose code is not among the
  sources; only the client that calls it is. The definitions of this section follow
  the specification (sections 3, 4, 7 and 9). Calls to the search provider and to the
  language models are parameters. Waiting between attempts and the parallel execution of
  the streams are not part of the model: the streams share nothing before the merge.
\<close>

text \<open>Modelled from the spec: the three streams of the orchestrator (section 3).\<close>

datatype stream = Legal | Political | Financial

text \<open>Modelled from the spec: the error kinds of the orchestrator (section 7).\<close>

datatype stage_error =
    SearchUnavailable
  | RateLimited
  | ProviderTimeout
  | ContentRejected
  | InvalidRequest
  | StreamDegraded
  | PersistenceFailure

text \<open>Modelled from the spec: a raw search hit, the input of the verification stage (section 3).\<close>

record Candidate =
  cand_title :: string
  snippet :: string
  url :: string
  source_site :: string
  published_at :: string

text \<open>Modelled from the spec: a normalized unit of content, made by the ingestion stage (section 3).\<close>

record Fragment =
  fragment_text :: string
  source_url :: string
  source_name :: string
  fragment_stream :: stream
  extracted_entities :: "string list"

text \<open>Modelled from the spec: the narrative of one stream, made by the writer stage (section 3).\<close>

record StreamNarrative =
  narrative_stream :: stream
  narrative_text :: string
  narrative_entities :: "string list"

text \<open>Modelled from the spec: the context that the enrichment stage adds to a stream (section 3).\<close>

record EnrichmentContext =
  enrichment_stream :: stream
  summary_text :: string
  citations :: "string list"

text \<open>Modelled from the spec: the categories of an item of a categorized report (section 3).\<close>

datatype item_category = legal | political | market

text \<open>Modelled from the spec: the impact levels of an item of a categorized report (section 3).\<close>

datatype impact_rubric = low | medium | high | critical

text \<open>Modelled from the spec: the items of which the categorization stage builds a report (section 3).\<close>

record CategorizedItem =
  item_text :: string
  item_category :: item_category
  impact_level :: impact_rubric
  item_entities :: "string list"
  sources :: "string list"

text \<open>Modelled from the spec: the report of one stream, with the recorded status of a degraded stream (sections 3 and 4.8).\<close>

record DomainReport =
  report_stream :: stream
  items :: "CategorizedItem list"
  degraded :: bool

text \<open>Modelled from the spec: the merged report that the orchestrator hands to the tips and alerts stage (section 3).\<close>

record MergedReport =
  merged_reports :: "stream \<rightharpoonup> DomainReport"

text \<open>Modelled from the spec: the output of the tips and alerts stage (section 4.7).\<close>

record tips_alerts_output =
  out_tips :: "string list"
  out_alerts :: "Alert list"

text \<open>Modelled from the spec: the storage paths of a persisted run (section 3).\<close>

record storage_paths =
  merged_report_path :: string
  tips_alerts_json_path :: string
  per_domain_paths :: "stream \<rightharpoonup> string"

text \<open>
  Modelled from the spec: the providers injected into the orchestrator (section 9) and
  the persistence boundary (section 6). \<open>search\<close> takes the stream and the number of
  the attempt.
\<close>

record providers =
  search :: "stream \<Rightarrow> nat \<Rightarrow> stage_error + Candidate list"
  verify :: "stream \<Rightarrow> Candidate \<Rightarrow> bool"
  ingest :: "stream \<Rightarrow> Candidate \<Rightarrow> Fragment option"
  writer :: "stream \<Rightarrow> Fragment list \<Rightarrow> StreamNarrative"
  enrich :: "stream \<Rightarrow> stage_error + EnrichmentContext"
  categorize :: "StreamNarrative \<Rightarrow> EnrichmentContext \<Rightarrow> CategorizedItem list"
  synthesize :: "MergedReport \<Rightarrow> tips_alerts_output"
  createReport :: "string \<Rightarrow> MergedReport \<Rightarrow> tips_alerts_output \<Rightarrow> stage_error + storage_paths \<times> string"

text \<open>Modelled from the spec: the retry policy of the orchestrator (sections 7 and 9).\<close>

record retry_policy =
  max_attempts :: nat

text \<open>Modelled from the spec: the recoverable error kinds of the orchestrator (section 7).\<close>

fun retryable :: "stage_error \<Rightarrow> bool" where
  "retryable RateLimited = True"
| "retryable ProviderTimeout = True"
| "retryable _ = False"

text \<open>
  Modelled from the spec: the orchestrator's bounded retry of the search of one stream
  (sections 4.1 and 7); a stream that uses up its attempts, or fails for good, is degraded.
\<close>

fun search_with_retry :: "providers \<Rightarrow> nat \<Rightarrow> nat \<Rightarrow> stream \<Rightarrow> stage_error + Candidate list" where
  "search_with_retry p 0 attempt s = Inl StreamDegraded"
| "search_with_retry p (Suc left) attempt s =
     (case search p s attempt of
        Inr candidates \<Rightarrow> Inr candidates
      | Inl e \<Rightarrow> if retryable e then search_with_retry p left (Suc attempt) s else Inl StreamDegraded)"

text \<open>Modelled from the spec: the category that belongs to a stream (sections 3 and 4.6).\<close>

fun stream_category :: "stream \<Rightarrow> item_category" where
  "stream_category Legal = legal"
| "stream_category Political = political"
| "stream_category Financial = market"

text \<open>Modelled from the spec: the verification stage, which drops the candidates the judge rejects (section 4.2).\<close>

definition verification_stage :: "providers \<Rightarrow> stream \<Rightarrow> Candidate list \<Rightarrow> Candidate list" where
  "verification_stage p s candidates = filter (verify p s) candidates"

text \<open>Modelled from the spec: the ingestion stage, zero or one fragment for each accepted candidate (section 4.3).\<close>

definition ingestion_stage :: "providers \<Rightarrow> stream \<Rightarrow> Candidate list \<Rightarrow> Fragment list" where
  "ingestion_stage p s accepted = List.map_filter (ingest p s) accepted"

text \<open>
  Modelled from the spec: the writer stage, which for no fragments still gives a
  narrative, stating that there are no material developments (section 4.4).
\<close>

definition writer_stage :: "providers \<Rightarrow> stream \<Rightarrow> Fragment list \<Rightarrow> StreamNarrative" where
  "writer_stage p s fragments =
     (if fragments = []
      then \<lparr> narrative_stream = s, narrative_text = ''no material developments'', narrative_entities = [] \<rparr>
      else writer p s fragments)"

text \<open>Modelled from the spec: the enrichment stage, which fails open on a provider error (section 4.5).\<close>

definition enrichment_stage :: "providers \<Rightarrow> stream \<Rightarrow> EnrichmentContext" where
  "enrichment_stage p s =
     (case enrich p s of
        Inl e \<Rightarrow> \<lparr> enrichment_stream = s, summary_text = [], citations = [] \<rparr>
      | Inr c \<Rightarrow> c)"

text \<open>
  Modelled from the spec: the categorization stage, which drops an item without sources
  and an item whose category is not the stream's (section 4.6).
\<close>

definition categorization_stage ::
  "providers \<Rightarrow> stream \<Rightarrow> StreamNarrative \<Rightarrow> EnrichmentContext \<Rightarrow> CategorizedItem list" where
  "categorization_stage p s narrative enrichment =
     filter (\<lambda>i. sources i \<noteq> [] \<and> item_category i = stream_category s)
            (categorize p narrative enrichment)"

text \<open>Modelled from the spec: the stages of one stream after its search, in their fixed order (section 2).\<close>

definition stream_items :: "providers \<Rightarrow> stream \<Rightarrow> Candidate list \<Rightarrow> CategorizedItem list" where
  "stream_items p s candidates =
     categorization_stage p s
       (writer_stage p s (ingestion_stage p s (verification_stage p s candidates)))
       (enrichment_stage p s)"

text \<open>
  Modelled from the spec: the run of one stream by the orchestrator; a degraded stream
  gives an empty report with its status recorded (section 4.8).
\<close>

definition run_stream :: "providers \<Rightarrow> retry_policy \<Rightarrow> stream \<Rightarrow> DomainReport" where
  "run_stream p policy s =
     (case search_with_retry p (max_attempts policy) 0 s of
        Inl e \<Rightarrow> \<lparr> report_stream = s, items = [], degraded = True \<rparr>
      | Inr candidates \<Rightarrow> \<lparr> report_stream = s, items = stream_items p s candidates, degraded = False \<rparr>)"

text \<open>
  Modelled from the spec: the merge of the orchestrator, which after each requested
  stream has returned writes its report into the accumulator (sections 4.8 and 5).
\<close>

fun merge_streams ::
  "providers \<Rightarrow> retry_policy \<Rightarrow> stream list \<Rightarrow> (stream \<rightharpoonup> DomainReport) \<Rightarrow> (stream \<rightharpoonup> DomainReport)" where
  "merge_streams p policy [] acc = acc"
| "merge_streams p policy (s # ss) acc = merge_streams p policy ss (acc(s \<mapsto> run_stream p policy s))"

text \<open>
  Modelled from the spec: the known streams of a request to the orchestrator (section 3),
  under the names that the client sends and the database schema lists.
\<close>

definition parse_stream :: "string \<Rightarrow> stream option" where
  "parse_stream name =
     (if name = ''prawo'' then Some Legal
      else if name = ''polityka'' then Some Political
      else if name = ''financial'' then Some Financial
      else None)"

text \<open>
  Modelled from the spec: the list of domains of a request to the orchestrator (section 6),
  read from the comma-separated parameter of the client.
\<close>

definition requested_names :: "string \<Rightarrow> string list" where
  "requested_names domains = split_js (CHR '','') domains"

text \<open>Modelled from the spec: the requested streams of a call to the orchestrator, all of which must be known (section 4.8).\<close>

fun parse_streams :: "string list \<Rightarrow> stream list option" where
  "parse_streams [] = Some []"
| "parse_streams (name # names) =
     (case parse_stream name of
        None \<Rightarrow> None
      | Some s \<Rightarrow> (case parse_streams names of None \<Rightarrow> None | Some ss \<Rightarrow> Some (s # ss)))"

text \<open>Modelled from the spec: the result of a completed run of the orchestrator (section 6).\<close>

record pipeline_result =
  run_status :: string
  domain_reports :: "stream \<rightharpoonup> DomainReport"
  final_tips_alerts :: tips_alerts_output
  storage_result :: storage_paths
  run_report_id :: string

text \<open>Modelled from the spec: the two terminal states of a run of the orchestrator (section 4.8).\<close>

datatype run_outcome = Completed pipeline_result | Failed stage_error

text \<open>
  Modelled from the spec: the orchestrator's operation \<open>runPipeline(user_ref, streams)\<close>
  (sections 4.8 and 7): an empty or unknown request is invalid, the streams run and are
  merged, tips and alerts are made from the merged report, and a failure to persist
  fails the run.
\<close>

definition orchestrate :: "providers \<Rightarrow> retry_policy \<Rightarrow> string \<Rightarrow> string list \<Rightarrow> run_outcome" where
  "orchestrate p policy user_ref names =
     (case parse_streams names of
        None \<Rightarrow> Failed InvalidRequest
      | Some streams \<Rightarrow>
          if streams = [] then Failed InvalidRequest
          else (let merged = \<lparr> merged_reports = merge_streams p policy streams Map.empty \<rparr>;
                    tips_alerts = synthesize p merged
                in case createReport p user_ref merged tips_alerts of
                     Inl e \<Rightarrow> Failed PersistenceFailure
                   | Inr (paths, rid) \<Rightarrow>
                       Completed \<lparr> run_status = ''Completed'',
                                   domain_reports = merged_reports merged,
                                   final_tips_alerts = tips_alerts,
                                   storage_result = paths,
                                   run_report_id = rid \<rparr>))"

text \<open>
  Providers for a run in which the search of the political stream is rate limited at
  every attempt and the other searches give one candidate at once.
\<close>

definition example_candidate :: Candidate where
  "example_candidate =
     \<lparr> cand_title = ''UKE consults on wholesale access'', snippet = ''The regulator opened a consultation'',
       url = ''https://uke.gov.pl/a'', source_site = ''uke.gov.pl'', published_at = ''2025-10-24'' \<rparr>"

definition example_item :: "stream \<Rightarrow> CategorizedItem" where
  "example_item s =
     \<lparr> item_text = ''The regulator opened a consultation'', item_category = stream_category s,
       impact_level = medium, item_entities = [''UKE''], sources = [''https://uke.gov.pl/a''] \<rparr>"

definition example_providers :: providers where
  "example_providers =
     \<lparr> search = (\<lambda>s attempt. if s = Political then Inl RateLimited else Inr [example_candidate]),
       verify = (\<lambda>s c. True),
       ingest = (\<lambda>s c. Some \<lparr> fragment_text = snippet c, source_url = url c, source_name = source_site c,
                                fragment_stream = s, extracted_entities = [''UKE''] \<rparr>),
       writer = (\<lambda>s fs. \<lparr> narrative_stream = s, narrative_text = concat (map fragment_text fs),
                           narrative_entities = [''UKE''] \<rparr>),
       enrich = (\<lambda>s. Inl ProviderTimeout),
       categorize = (\<lambda>n e. [example_item (narrative_stream n)]),
       synthesize = (\<lambda>m. \<lparr> out_tips = [''Follow the consultation''], out_alerts = [] \<rparr>),
       createReport = (\<lambda>u m t. Inr (\<lparr> merged_report_path = u @ ''/report.txt'',
                                       tips_alerts_json_path = u @ ''/tips_alerts.json'',
                                       per_domain_paths = Map.empty \<rparr>, ''report-1'')) \<rparr>"

definition example_policy :: retry_policy where
  "example_policy = \<lparr> max_attempts = 3 \<rparr>"

definition example_names :: "string list" where
  "example_names = requested_names request_domains"

section \<open>Properties of the alert labels\<close>

lemma getAlertLevelText_cases:
  "getAlertLevelText l =
     (if 5 \<le> l then ''Critical'' else if l = 4 then ''High''
      else if l = 3 then ''Medium'' else ''Low'')"
  by (simp add: getAlertLevelText_def)

lemma severity_rank_text:
  "severity_rank (getAlertLevelText l) =
     (if 5 \<le> l then 3 else if l = 4 then 2 else if l = 3 then 1 else 0)"
  by (simp add: getAlertLevelText_def severity_rank_def)

text \<open>
  Claim C9. The labelling function is total and monotone: every integer level has
  exactly one label, which is Critical from 5 upwards, High at 4, Medium at 3 and Low
  otherwise, and a smaller level never gets a label of higher severity than a larger
  level, in the order Low < Medium < High < Critical.
\<close>

theorem getAlertLevelText_total_monotone:
  "getAlertLevelText l =
     (if 5 \<le> l then ''Critical'' else if l = 4 then ''High''
      else if l = 3 then ''Medium'' else ''Low'')
   \<and> getAlertLevelText l \<in> {''Low'', ''Medium'', ''High'', ''Critical''}
   \<and> (a \<le> b \<longrightarrow> severity_rank (getAlertLevelText a) \<le> severity_rank (getAlertLevelText b))"
proof (intro conjI impI)
  show "getAlertLevelText l =
     (if 5 \<le> l then ''Critical'' else if l = 4 then ''High''
      else if l = 3 then ''Medium'' else ''Low'')"
    by (rule getAlertLevelText_cases)
  show "getAlertLevelText l \<in> {''Low'', ''Medium'', ''High'', ''Critical''}"
    by (simp add: getAlertLevelText_def)
  assume "a \<le> b"
  then show "severity_rank (getAlertLevelText a) \<le> severity_rank (getAlertLevelText b)"
    unfolding severity_rank_text by auto
qed

theorem getAlertLevelText_total_monotone_witness:
  "(2::int) \<le> 5
   \<and> getAlertLevelText 4 = ''High''
   \<and> severity_rank (getAlertLevelText 2) \<le> severity_rank (getAlertLevelText 5)"
  using getAlertLevelText_total_monotone [of 4 2 5] by simp

section \<open>Properties of the report conversion\<close>

lemma convertReport_level:
  "level (report_impact (convertReport fmt r)) = (if js_gt_zero (report_alerts r) then ''High'' else ''Medium'')"
  by (simp add: convertReport_def)

lemma convertReportDetail_level:
  "level (detail_impact (convertReportDetail fmt r)) = (if js_gt_zero (report_alerts r) then ''High'' else ''Medium'')"
  by (simp add: convertReportDetail_def)

text \<open>
  Claim C8. For every report record of the list and detail endpoints the conversion
  sets the impact level to High exactly when the record's \<open>report_alerts\<close> count is
  greater than zero and to Medium otherwise; Low and Critical never come out of it.
\<close>

theorem impact_level_High_iff_alerts:
  "(level (report_impact (convertReport fmt r)) = ''High'') = (case report_alerts r of None \<Rightarrow> False | Some n \<Rightarrow> 0 < n)
   \<and> (level (report_impact (convertReport fmt r)) = ''Medium'') = (case report_alerts r of None \<Rightarrow> True | Some n \<Rightarrow> n \<le> 0)
   \<and> (level (detail_impact (convertReportDetail fmt r)) = ''High'') = (case report_alerts r of None \<Rightarrow> False | Some n \<Rightarrow> 0 < n)
   \<and> (level (detail_impact (convertReportDetail fmt r)) = ''Medium'') = (case report_alerts r of None \<Rightarrow> True | Some n \<Rightarrow> n \<le> 0)
   \<and> level (report_impact (convertReport fmt r)) \<noteq> ''Low''
   \<and> level (report_impact (convertReport fmt r)) \<noteq> ''Critical''
   \<and> level (detail_impact (convertReportDetail fmt r)) \<noteq> ''Low''
   \<and> level (detail_impact (convertReportDetail fmt r)) \<noteq> ''Critical''
   \<and> map (\<lambda>c. level (report_impact c)) (convertedReports fmt rs)
       = map (\<lambda>a. if js_gt_zero (report_alerts a) then ''High'' else ''Medium'') rs"
  unfolding convertReport_level convertReportDetail_level convertedReports_def
  by (simp add: js_gt_zero_def comp_def convertReport_level split: option.split)

section \<open>Properties of the tips list\<close>

lemma renderTips_zip: "renderTips ts = zip [1..<Suc (length ts)] ts"
proof -
  have "map (\<lambda>(index, tip). (index + 1, tip)) (zip [0..<length ts] ts)
        = zip (map Suc [0..<length ts]) ts"
    by (simp add: zip_map1 case_prod_unfold)
  then show ?thesis
    by (simp add: renderTips_def enumerate_eq_zip map_Suc_upt)
qed

lemma renderTips_texts: "map snd (renderTips ts) = ts"
  unfolding renderTips_zip by (rule map_snd_zip) (simp only: length_upt diff_Suc_1 One_nat_def diff_Suc_Suc diff_zero)

lemma renderTips_numbers: "map fst (renderTips ts) = [1..<Suc (length ts)]"
  unfolding renderTips_zip by (rule map_fst_zip) (simp only: length_upt diff_Suc_1 One_nat_def diff_Suc_Suc diff_zero)

lemma renderTips_nth:
  assumes "i < length ts"
  shows "renderTips ts ! i = (i + 1, ts ! i)"
  using assms by (simp add: renderTips_def nth_enumerate_eq)

text \<open>
  Claim C7. Tips are ranked by generation order alone: the number shown for a tip is
  its position in the sequence plus one, and the displayed sequence is the received one,
  in the same order, from the response to the rendered list.
\<close>

theorem tips_priority_is_insertion_position:
  "renderTips ts = zip [1..<Suc (length ts)] ts
   \<and> map snd (renderTips ts) = ts
   \<and> (i < length ts \<longrightarrow> renderTips ts ! i = (i + 1, ts ! i))
   \<and> tips (loadTipsAlerts now (Data d)) = tips d
   \<and> displayedTips now (Some d) = zip [1..<Suc (length (tips d))] (tips d)"
proof (intro conjI impI)
  show "renderTips ts = zip [1..<Suc (length ts)] ts" by (rule renderTips_zip)
  show "map snd (renderTips ts) = ts" by (rule renderTips_texts)
  show "tips (loadTipsAlerts now (Data d)) = tips d" by (simp add: loadTipsAlerts_def)
  show "displayedTips now (Some d) = zip [1..<Suc (length (tips d))] (tips d)"
    by (simp only: displayedTips_def page_tipsAlerts_def loadTipsAlerts_def option.case
        tips_prop.case renderTips_zip)
  assume "i < length ts"
  then show "renderTips ts ! i = (i + 1, ts ! i)" by (rule renderTips_nth)
qed

theorem tips_priority_is_insertion_position_witness:
  "(1::nat) < length [''first'', ''second'', ''third'']
   \<and> renderTips [''first'', ''second'', ''third''] = [(1, ''first''), (2, ''second''), (3, ''third'')]
   \<and> renderTips [''first'', ''second'', ''third''] ! 1 = (2, ''second'')"
  using tips_priority_is_insertion_position [of "[''first'', ''second'', ''third'']" 1]
  by (simp add: upt_rec)

section \<open>Properties of the pagination\<close>

lemma slice_js_nonneg:
  assumes "0 \<le> a" "a \<le> b"
  shows "slice_js xs a b = take (nat (b - a)) (drop (nat a) xs)"
proof (cases "a \<le> int (length xs)")
  case True
  then show ?thesis using assms
    by (auto simp: slice_js_def Let_def min_def max_def nat_diff_distrib)
next
  case False
  then show ?thesis using assms
    by (auto simp: slice_js_def Let_def min_def max_def)
qed

lemma paginatedReports_take_drop:
  assumes "1 \<le> p" "0 < ps"
  shows "paginatedReports reports p ps = take (nat ps) (drop (nat ((p - 1) * ps)) reports)"
proof -
  have a: "0 \<le> (p - 1) * ps" using assms by simp
  have b: "(p - 1) * ps \<le> p * ps" using assms by (simp add: mult_right_mono)
  have c: "p * ps - (p - 1) * ps = ps" by (simp add: algebra_simps)
  show ?thesis
    unfolding paginatedReports_def slice_js_nonneg [OF a b] c ..
qed

lemma take_drop_nth: "take k (drop a xs) = map (\<lambda>i. xs ! i) [a..<min (a + k) (length xs)]"
  by (rule nth_equalityI) auto

lemma concat_pages_nat:
  "concat (map (\<lambda>i. take k (drop (i * k) xs)) [0..<m]) = take (m * k) xs"
proof (induction m)
  case 0
  then show ?case by simp
next
  case (Suc m)
  have "take (Suc m * k) xs = take (m * k + k) xs"
    by (simp add: add.commute)
  also have "\<dots> = take (m * k) xs @ take k (drop (m * k) xs)"
    by (rule take_add)
  finally show ?case using Suc by simp
qed

lemma ceiling_pages:
  assumes "0 < ps"
  shows "int (length xs) \<le> \<lceil>real (length xs) / real_of_int ps\<rceil> * ps"
proof -
  have "real (length xs) \<le> of_int \<lceil>real (length xs) / real_of_int ps\<rceil> * real_of_int ps"
    using assms by (intro ceiling_divide_upper) simp
  then have "real_of_int (int (length xs)) \<le> real_of_int (\<lceil>real (length xs) / real_of_int ps\<rceil> * ps)"
    by simp
  then show ?thesis by linarith
qed


lemma upto_from_one: "[1..int m] = map (\<lambda>i. int (Suc i)) [0..<m]"
proof (induction m)
  case 0
  then show ?case by simp
next
  case (Suc m)
  have "[1..int (Suc m)] = [1..int (Suc m) - 1] @ [int (Suc m)]"
    by (rule upto_rec2) simp
  then show ?case using Suc by simp
qed

lemma concat_pages:
  assumes "0 < ps" "length reports \<le> m * nat ps"
  shows "concat (map (\<lambda>q. paginatedReports reports q ps) [1..int m]) = reports"
proof -
  have "map (\<lambda>q. paginatedReports reports q ps) [1..int m]
        = map (\<lambda>i. take (nat ps) (drop (i * nat ps) reports)) [0..<m]"
    unfolding upto_from_one map_map
  proof (rule map_cong [OF refl])
    fix i
    have "1 \<le> int (Suc i)" by simp
    then have "paginatedReports reports (int (Suc i)) ps
          = take (nat ps) (drop (nat ((int (Suc i) - 1) * ps)) reports)"
      using assms(1) by (rule paginatedReports_take_drop)
    moreover have "nat ((int (Suc i) - 1) * ps) = i * nat ps"
      using assms(1) by (simp add: nat_mult_distrib)
    ultimately show "((\<lambda>q. paginatedReports reports q ps) \<circ> (\<lambda>i. int (Suc i))) i
          = take (nat ps) (drop (i * nat ps) reports)"
      by simp
  qed
  then show ?thesis
    using assms(2) by (simp add: concat_pages_nat)
qed

text \<open>
  Claim C10. For a positive page size and a page number \<open>p\<close> from 1, the table shows
  exactly the elements at the indices from \<open>(p - 1) * pageSize\<close> up to but excluding
  \<open>p * pageSize\<close>, the number of pages is the ceiling of length over page size, and
  the pages 1 to \<open>totalPages\<close>, one after the other, give back the list: nothing is
  repeated, left out or reordered.
\<close>

theorem pagination_slices_partition:
  assumes "1 \<le> p" and "0 < pageSize"
  shows "paginatedReports reports p pageSize
           = take (nat pageSize) (drop (nat ((p - 1) * pageSize)) reports)
       \<and> paginatedReports reports p pageSize
           = map (\<lambda>i. reports ! i) [nat ((p - 1) * pageSize)..<min (nat (p * pageSize)) (length reports)]
       \<and> displayed_rows (ReportsTable reports False p pageSize) = paginatedReports reports p pageSize
       \<and> totalPages reports pageSize = Finite \<lceil>real (length reports) / real_of_int pageSize\<rceil>
       \<and> concat (map (\<lambda>q. paginatedReports reports q pageSize)
                      [1..\<lceil>real (length reports) / real_of_int pageSize\<rceil>]) = reports"
proof (intro conjI)
  show td: "paginatedReports reports p pageSize
           = take (nat pageSize) (drop (nat ((p - 1) * pageSize)) reports)"
    using assms by (rule paginatedReports_take_drop)
  have "nat ((p - 1) * pageSize) + nat pageSize = nat (p * pageSize)"
    using assms by (simp add: nat_add_distrib [symmetric] algebra_simps)
  then show "paginatedReports reports p pageSize
           = map (\<lambda>i. reports ! i) [nat ((p - 1) * pageSize)..<min (nat (p * pageSize)) (length reports)]"
    unfolding td take_drop_nth by simp
  show "displayed_rows (ReportsTable reports False p pageSize) = paginatedReports reports p pageSize"
  proof (cases "reports = []")
    case True
    then show ?thesis
      using assms by (simp add: ReportsTable_def paginatedReports_take_drop)
  next
    case False
    then show ?thesis by (simp add: ReportsTable_def)
  qed
  show "totalPages reports pageSize = Finite \<lceil>real (length reports) / real_of_int pageSize\<rceil>"
    using assms(2) by (simp add: totalPages_def)
  let ?tp = "\<lceil>real (length reports) / real_of_int pageSize\<rceil>"
  have "0 \<le> real (length reports) / real_of_int pageSize"
    using assms(2) by simp
  then have nonneg: "0 \<le> ?tp"
    by (simp add: zero_le_ceiling)
  have "int (length reports) \<le> ?tp * pageSize"
    using assms(2) by (rule ceiling_pages)
  also have "\<dots> = int (nat ?tp * nat pageSize)"
    using nonneg assms(2) by simp
  finally have "length reports \<le> nat ?tp * nat pageSize"
    by linarith
  with assms(2) have "concat (map (\<lambda>q. paginatedReports reports q pageSize) [1..int (nat ?tp)]) = reports"
    by (rule concat_pages)
  then show "concat (map (\<lambda>q. paginatedReports reports q pageSize) [1..?tp]) = reports"
    using nonneg by simp
qed

theorem pagination_slices_partition_witness:
  "(1::int) \<le> 2 \<and> (0::int) < 3
   \<and> paginatedReports [10, 20, 30, 40, 50, 60, 70 :: nat] 2 3 = [40, 50, 60]
   \<and> totalPages [10, 20, 30, 40, 50, 60, 70 :: nat] 3 = Finite 3
   \<and> concat (map (\<lambda>q. paginatedReports [10, 20, 30, 40, 50, 60, 70 :: nat] q 3) [1..3])
        = [10, 20, 30, 40, 50, 60, 70]"
  using pagination_slices_partition [of 2 3 "[10, 20, 30, 40, 50, 60, 70 :: nat]"]
  by simp

section \<open>Properties of the streaming consumer\<close>

lemma payloads_Nil: "payloads [] = []"
  by (simp add: payloads_def)

lemma payloads_Cons: "payloads (c # cs) = line_payloads (split_js newline c) @ payloads cs"
  by (simp add: payloads_def line_payloads_def)

lemma line_payloads_Cons:
  "line_payloads (l # ls) = (if startsWith l ''data: '' then drop 6 l # line_payloads ls else line_payloads ls)"
  by (simp add: line_payloads_def)

lemma update_assistant_streaming:
  assumes "streaming aid acc loading st"
  shows "\<exists>st'. update_assistant aid acc' st = Some st' \<and> streaming aid acc' loading st'"
proof -
  from assms obtain cur where cur: "currentThread st = Some cur" "messages cur \<noteq> []"
      "msg_id (last (messages cur)) = aid" "isLoading st = loading" "error st = None"
    by (auto simp: streaming_def split: option.splits)
  show ?thesis
    using cur by (simp add: update_assistant_def streaming_def Let_def last_map)
qed

lemma process_lines_streaming:
  assumes "streaming aid acc True st"
  shows "case process_lines aid lines acc st of
           Continue acc' st' \<Rightarrow> ''[DONE]'' \<notin> set (line_payloads lines)
               \<and> acc' = acc @ concat (line_payloads lines) \<and> streaming aid acc' True st'
         | Returned acc' st' \<Rightarrow> ''[DONE]'' \<in> set (line_payloads lines)
               \<and> acc' = acc @ concat (takeWhile (\<lambda>d. d \<noteq> ''[DONE]'') (line_payloads lines))
               \<and> streaming aid acc' False st'
         | Thrown acc' st' \<Rightarrow> False"
  using assms
proof (induction lines arbitrary: acc st)
  case Nil
  then show ?case by (simp add: line_payloads_def)
next
  case (Cons line lines)
  show ?case
  proof (cases "startsWith line ''data: ''")
    case False
    then have "line_payloads (line # lines) = line_payloads lines"
      and "process_lines aid (line # lines) acc st = process_lines aid lines acc st"
      by (simp_all add: line_payloads_Cons)
    then show ?thesis using Cons.IH [OF Cons.prems]
      by (simp only:)
  next
    case data: True
    show ?thesis
    proof (cases "drop 6 line = ''[DONE]''")
      case True
      then show ?thesis using data Cons.prems
        by (simp add: line_payloads_Cons streaming_def split: option.splits)
    next
      case False
      from update_assistant_streaming [OF Cons.prems, of "acc @ drop 6 line"]
      obtain st' where st': "update_assistant aid (acc @ drop 6 line) st = Some st'"
          "streaming aid (acc @ drop 6 line) True st'"
        by blast
      have "line_payloads (line # lines) = drop 6 line # line_payloads lines"
        and "process_lines aid (line # lines) acc st = process_lines aid lines (acc @ drop 6 line) st'"
        using data False st'(1) by (simp_all add: line_payloads_Cons)
      then show ?thesis using False Cons.IH [OF st'(2)]
        by (auto split: loop_result.splits)
    qed
  qed
qed

lemma read_loop_streaming:
  assumes "streaming aid acc True st"
  shows "fst (read_loop aid (map Value chunks) acc st)
           = acc @ concat (takeWhile (\<lambda>d. d \<noteq> ''[DONE]'') (payloads chunks))
       \<and> streaming aid (acc @ concat (takeWhile (\<lambda>d. d \<noteq> ''[DONE]'') (payloads chunks)))
            (''[DONE]'' \<notin> set (payloads chunks))
            (snd (read_loop aid (map Value chunks) acc st))"
  using assms
proof (induction chunks arbitrary: acc st)
  case Nil
  then show ?case by (simp add: payloads_Nil)
next
  case (Cons c cs)
  let ?ls = "line_payloads (split_js newline c)"
  show ?case
  proof (cases "process_lines aid (split_js newline c) acc st")
    case (Continue acc' st')
    with process_lines_streaming [OF Cons.prems, of "split_js newline c"]
    have p: "''[DONE]'' \<notin> set ?ls" "acc' = acc @ concat ?ls" "streaming aid acc' True st'"
      by auto
    have tw: "takeWhile (\<lambda>d. d \<noteq> ''[DONE]'') (?ls @ payloads cs) = ?ls @ takeWhile (\<lambda>d. d \<noteq> ''[DONE]'') (payloads cs)"
      by (rule takeWhile_append2) (use p(1) in auto)
    show ?thesis
      using Continue p(1,2) Cons.IH [OF p(3)] by (simp add: payloads_Cons tw)
  next
    case (Returned acc' st')
    with process_lines_streaming [OF Cons.prems, of "split_js newline c"]
    have p: "''[DONE]'' \<in> set ?ls" "acc' = acc @ concat (takeWhile (\<lambda>d. d \<noteq> ''[DONE]'') ?ls)"
        "streaming aid acc' False st'"
      by auto
    have tw: "takeWhile (\<lambda>d. d \<noteq> ''[DONE]'') (?ls @ payloads cs) = takeWhile (\<lambda>d. d \<noteq> ''[DONE]'') ?ls"
      by (rule takeWhile_append1 [OF p(1)]) simp
    show ?thesis
      using Returned p by (simp add: payloads_Cons tw)
  next
    case (Thrown acc' st')
    with process_lines_streaming [OF Cons.prems, of "split_js newline c"]
    show ?thesis by simp
  qed
qed


lemma streaming_initial:
  "streaming (''msg_'' @ ta @ ''_assistant'') [] True
     ((case currentThread st0 of None \<Rightarrow> createNewThread tt st0 | Some t \<Rightarrow> st0)
        \<lparr> isLoading := True, error := None,
          currentThread := Some (thread\<lparr> messages := messages thread
              @ [\<lparr> msg_id = ''msg_'' @ tu, content = content', role = User \<rparr>,
                 \<lparr> msg_id = ''msg_'' @ ta @ ''_assistant'', content = [], role = Assistant \<rparr>] \<rparr>) \<rparr>)"
  by (simp add: streaming_def)

lemma read_loop_streaming_start:
  assumes "streaming aid [] True st"
  shows "streaming aid (concat (takeWhile (\<lambda>d. d \<noteq> ''[DONE]'') (payloads chunks)))
            (''[DONE]'' \<notin> set (payloads chunks))
            (snd (read_loop aid (map Value chunks) [] st))"
  using read_loop_streaming [OF assms] by simp

lemma sendStreamingMessage_streaming:
  "streaming (''msg_'' @ ta @ ''_assistant'')
     (concat (takeWhile (\<lambda>d. d \<noteq> ''[DONE]'') (payloads chunks)))
     (''[DONE]'' \<notin> set (payloads chunks))
     (sendStreamingMessage tt tu ta content' (Response True code (Some (map Value chunks))) st0)"
  unfolding sendStreamingMessage_def Let_def
  apply (simp only: response.case option.case not_True_eq_False if_False Message.select_convs)
  apply (rule read_loop_streaming_start)
  apply (rule streaming_initial)
  done

lemma streaming_assistant_content:
  "streaming aid acc loading st \<Longrightarrow>
     assistant_content st = Some acc \<and> isLoading st = loading \<and> error st = None"
  by (auto simp: streaming_def assistant_content_def split: option.splits)

lemma split_js_line:
  "c \<notin> set xs \<Longrightarrow> split_js c (xs @ c # rest) = xs # split_js c rest"
  by (induction xs) (auto simp: Let_def)

lemma split_js_frame:
  assumes "newline \<notin> set p"
  shows "split_js newline (frame p @ rest) = (''data: '' @ p) # [] # split_js newline rest"
proof -
  have "newline \<notin> set (''data: '' @ p)"
    using assms by (simp add: newline_def)
  then have "split_js newline ((''data: '' @ p) @ newline # (newline # rest))
             = (''data: '' @ p) # split_js newline (newline # rest)"
    by (rule split_js_line)
  then show ?thesis by (simp add: frame_def)
qed

lemma line_payloads_frames:
  assumes "\<forall>p \<in> set g. newline \<notin> set p"
  shows "line_payloads (split_js newline (concat (map frame g))) = g"
  using assms
proof (induction g)
  case Nil
  then show ?case by (simp add: line_payloads_def startsWith_def)
next
  case (Cons p g)
  then have "split_js newline (frame p @ concat (map frame g))
             = (''data: '' @ p) # [] # split_js newline (concat (map frame g))"
    by (simp add: split_js_frame)
  then show ?case using Cons
    by (simp add: line_payloads_Cons startsWith_def)
qed

lemma payloads_frames:
  assumes "\<forall>p \<in> set (concat groups). newline \<notin> set p"
  shows "payloads (map (\<lambda>g. concat (map frame g)) groups) = concat groups"
  using assms
  by (induction groups) (simp_all add: payloads_Nil payloads_Cons line_payloads_frames)

lemma split_reads_payloads:
  "payloads [''data: he'', ''llo'' @ [newline, newline] @ ''data: wor'', ''ld'' @ [newline, newline]] = [''he'', ''wor'']"
  by (simp add: payloads_def newline_def startsWith_def Let_def)

lemma cut_DONE_payloads:
  "payloads [frame ''ab'', ''data: [DO'', ''NE]'' @ [newline, newline]] = [''ab'', ''[DO'']"
  by (simp add: payloads_def frame_def newline_def startsWith_def Let_def)

lemma frames_content:
  assumes "\<forall>p \<in> set (concat groups). newline \<notin> set p"
  shows "assistant_content
           (sendStreamingMessage tt tu ta content'
              (Response True code (Some (map Value (map (\<lambda>g. concat (map frame g)) groups)))) st0)
         = Some (concat (takeWhile (\<lambda>d. d \<noteq> ''[DONE]'') (concat groups)))
       \<and> isLoading
           (sendStreamingMessage tt tu ta content'
              (Response True code (Some (map Value (map (\<lambda>g. concat (map frame g)) groups)))) st0)
         = (''[DONE]'' \<notin> set (concat groups))"
  using streaming_assistant_content
    [OF sendStreamingMessage_streaming [where chunks = "map (\<lambda>g. concat (map frame g)) groups"]]
  unfolding payloads_frames [OF assms] by blast

text \<open>
  Claim C6, as stated, fails: the consumer splits every read into lines on its own and
  does not join a line cut by the end of a read with its continuation. The frames with
  the payloads \<open>hello\<close> and \<open>world\<close>, arriving in three reads, leave the content
  \<open>hewor\<close>; the frames \<open>ab\<close> and \<open>[DONE]\<close> with the second one cut leave the content
  \<open>ab[DO\<close>, a part of the terminator, and the consumer does not stop.
\<close>

theorem streaming_split_frames_counterexample:
  "concat [''data: he'', ''llo'' @ [newline, newline] @ ''data: wor'', ''ld'' @ [newline, newline]]
     = frame ''hello'' @ frame ''world''
   \<and> assistant_content
         (sendStreamingMessage ''1'' ''2'' ''3'' ''hi''
            (Response True 200
               (Some (map Value [''data: he'', ''llo'' @ [newline, newline] @ ''data: wor'', ''ld'' @ [newline, newline]])))
            \<lparr> currentThread = None, threads = [], isLoading = False, error = None \<rparr>)
       = Some ''hewor''
   \<and> concat [frame ''ab'', ''data: [DO'', ''NE]'' @ [newline, newline]] = frame ''ab'' @ frame ''[DONE]''
   \<and> assistant_content
         (sendStreamingMessage ''1'' ''2'' ''3'' ''hi''
            (Response True 200 (Some (map Value [frame ''ab'', ''data: [DO'', ''NE]'' @ [newline, newline]])))
            \<lparr> currentThread = None, threads = [], isLoading = False, error = None \<rparr>)
       = Some ''ab[DO''
   \<and> isLoading
         (sendStreamingMessage ''1'' ''2'' ''3'' ''hi''
            (Response True 200 (Some (map Value [frame ''ab'', ''data: [DO'', ''NE]'' @ [newline, newline]])))
            \<lparr> currentThread = None, threads = [], isLoading = False, error = None \<rparr>)"
proof -
  let ?st0 = "\<lparr> currentThread = None, threads = [], isLoading = False, error = None \<rparr>"
  let ?a = "[''data: he'', ''llo'' @ [newline, newline] @ ''data: wor'', ''ld'' @ [newline, newline]]"
  let ?b = "[frame ''ab'', ''data: [DO'', ''NE]'' @ [newline, newline]]"
  have a: "assistant_content (sendStreamingMessage ''1'' ''2'' ''3'' ''hi'' (Response True 200 (Some (map Value ?a))) ?st0)
             = Some (concat (takeWhile (\<lambda>d. d \<noteq> ''[DONE]'') (payloads ?a)))"
    using streaming_assistant_content [OF sendStreamingMessage_streaming] by blast
  have b: "assistant_content (sendStreamingMessage ''1'' ''2'' ''3'' ''hi'' (Response True 200 (Some (map Value ?b))) ?st0)
             = Some (concat (takeWhile (\<lambda>d. d \<noteq> ''[DONE]'') (payloads ?b)))
           \<and> isLoading (sendStreamingMessage ''1'' ''2'' ''3'' ''hi'' (Response True 200 (Some (map Value ?b))) ?st0)
             = (''[DONE]'' \<notin> set (payloads ?b))"
    using streaming_assistant_content [OF sendStreamingMessage_streaming] by blast
  have c: "concat ?a = frame ''hello'' @ frame ''world''" "concat ?b = frame ''ab'' @ frame ''[DONE]''"
    by (simp_all add: frame_def)
  show ?thesis
    using a b c unfolding split_reads_payloads cut_DONE_payloads by simp
qed

text \<open>
  Claim C6, amended. The consumer handles, read by read, the lines \<open>data: <chunk>\<close>:
  the content of the assistant message is the payloads of these lines in the order of
  arrival up to the first payload \<open>[DONE]\<close>, where the consumer stops and clears the
  loading flag; it stops at no other line, and \<open>[DONE]\<close> is never among the appended
  payloads. When every read carries whole frames \<open>data: <chunk>\<close> followed by two line
  feeds, with payloads free of line feeds, the content is the payloads of the frames the
  server sent, in the order of arrival, up to the first \<open>[DONE]\<close>, and the consumer
  stops exactly when a frame has that payload.
\<close>

theorem streaming_appends_until_DONE:
  "assistant_content (sendStreamingMessage tt tu ta content' (Response True code (Some (map Value chunks))) st0)
     = Some (concat (takeWhile (\<lambda>d. d \<noteq> ''[DONE]'') (payloads chunks)))
   \<and> isLoading (sendStreamingMessage tt tu ta content' (Response True code (Some (map Value chunks))) st0)
       = (''[DONE]'' \<notin> set (payloads chunks))
   \<and> error (sendStreamingMessage tt tu ta content' (Response True code (Some (map Value chunks))) st0) = None
   \<and> ''[DONE]'' \<notin> set (takeWhile (\<lambda>d. d \<noteq> ''[DONE]'') (payloads chunks))
   \<and> ((\<forall>p \<in> set (concat groups). newline \<notin> set p) \<longrightarrow>
        payloads (map (\<lambda>g. concat (map frame g)) groups) = concat groups
        \<and> assistant_content
             (sendStreamingMessage tt tu ta content'
                (Response True code (Some (map Value (map (\<lambda>g. concat (map frame g)) groups)))) st0)
           = Some (concat (takeWhile (\<lambda>d. d \<noteq> ''[DONE]'') (concat groups)))
        \<and> isLoading
             (sendStreamingMessage tt tu ta content'
                (Response True code (Some (map Value (map (\<lambda>g. concat (map frame g)) groups)))) st0)
           = (''[DONE]'' \<notin> set (concat groups)))"
proof (intro conjI impI)
  let ?st = "sendStreamingMessage tt tu ta content' (Response True code (Some (map Value chunks))) st0"
  have s: "assistant_content ?st = Some (concat (takeWhile (\<lambda>d. d \<noteq> ''[DONE]'') (payloads chunks)))
      \<and> isLoading ?st = (''[DONE]'' \<notin> set (payloads chunks)) \<and> error ?st = None"
    by (rule streaming_assistant_content [OF sendStreamingMessage_streaming])
  show "assistant_content ?st = Some (concat (takeWhile (\<lambda>d. d \<noteq> ''[DONE]'') (payloads chunks)))"
    using s by simp
  show "isLoading ?st = (''[DONE]'' \<notin> set (payloads chunks))"
    using s by simp
  show "error ?st = None"
    using s by simp
  show "''[DONE]'' \<notin> set (takeWhile (\<lambda>d. d \<noteq> ''[DONE]'') (payloads chunks))"
    by (auto dest: set_takeWhileD)
next
  assume h: "\<forall>p \<in> set (concat groups). newline \<notin> set p"
  then show "payloads (map (\<lambda>g. concat (map frame g)) groups) = concat groups"
    by (rule payloads_frames)
  from frames_content [OF h]
  show "assistant_content
             (sendStreamingMessage tt tu ta content'
                (Response True code (Some (map Value (map (\<lambda>g. concat (map frame g)) groups)))) st0)
           = Some (concat (takeWhile (\<lambda>d. d \<noteq> ''[DONE]'') (concat groups)))"
    by blast
  from frames_content [OF h]
  show "isLoading
             (sendStreamingMessage tt tu ta content'
                (Response True code (Some (map Value (map (\<lambda>g. concat (map frame g)) groups)))) st0)
           = (''[DONE]'' \<notin> set (concat groups))"
    by blast
qed

theorem streaming_appends_until_DONE_witness:
  "newline \<notin> set ''ab'' \<and> newline \<notin> set ''cd'' \<and> newline \<notin> set ''[DONE]'' \<and> newline \<notin> set ''x''
   \<and> payloads (map (\<lambda>g. concat (map frame g)) [[''ab'', ''cd''], [''[DONE]'', ''x'']])
       = [''ab'', ''cd'', ''[DONE]'', ''x'']
   \<and> assistant_content
         (sendStreamingMessage ''1'' ''2'' ''3'' ''hi''
            (Response True 200 (Some (map Value (map (\<lambda>g. concat (map frame g)) [[''ab'', ''cd''], [''[DONE]'', ''x'']]))))
            \<lparr> currentThread = None, threads = [], isLoading = False, error = None \<rparr>)
       = Some ''abcd''
   \<and> \<not> isLoading
         (sendStreamingMessage ''1'' ''2'' ''3'' ''hi''
            (Response True 200 (Some (map Value (map (\<lambda>g. concat (map frame g)) [[''ab'', ''cd''], [''[DONE]'', ''x'']]))))
            \<lparr> currentThread = None, threads = [], isLoading = False, error = None \<rparr>)"
proof -
  have h: "\<forall>p \<in> set (concat [[''ab'', ''cd''], [''[DONE]'', ''x'']]). newline \<notin> set p"
    by (simp add: newline_def)
  note t = streaming_appends_until_DONE
    [where groups = "[[''ab'', ''cd''], [''[DONE]'', ''x'']]"
       and chunks = "[]"
       and tt = "''1''" and tu = "''2''" and ta = "''3''" and content' = "''hi''" and code = 200
       and ?st0.0 = "\<lparr> currentThread = None, threads = [], isLoading = False, error = None \<rparr>"]
  from t h show ?thesis
    by (simp add: newline_def)
qed

section \<open>Properties of the API client\<close>






section \<open>Properties of the pipeline orchestrator\<close>

lemma merge_streams_lookup:
  "merge_streams p policy ss acc t = (if t \<in> set ss then Some (run_stream p policy t) else acc t)"
  by (induction ss arbitrary: acc) auto

lemma dom_merge_streams: "dom (merge_streams p policy ss acc) = dom acc \<union> set ss"
  by (induction ss arbitrary: acc) auto

lemma orchestrate_Completed:
  assumes "orchestrate p policy user_ref names = Completed r"
  shows "\<exists>streams. parse_streams names = Some streams \<and> streams \<noteq> []
           \<and> domain_reports r = merge_streams p policy streams Map.empty"
  using assms
  by (auto simp: orchestrate_def Let_def split: option.splits if_splits sum.splits prod.splits)

text \<open>
  Claim C2. The merged report of a run has exactly the requested streams as the keys of
  its \<open>domain_reports\<close>, whatever happened to each stream: a degraded stream keeps
  its key, with an empty report. This holds for the merge itself and for the result of
  every completed run. On the client, the tabs of the domain display are the domains of
  the request, whatever data arrived for them.
\<close>

theorem merged_report_has_requested_keys:
  "dom (merge_streams p policy streams Map.empty) = set streams
   \<and> (orchestrate p policy user_ref names = Completed r \<longrightarrow>
        (\<exists>streams. parse_streams names = Some streams \<and> dom (domain_reports r) = set streams))
   \<and> map fst (DomainSynthesis domainSynthesis) = requested_names request_domains"
proof (intro conjI impI)
  show "dom (merge_streams p policy streams Map.empty) = set streams"
    by (simp add: dom_merge_streams)
  show "map fst (DomainSynthesis domainSynthesis) = requested_names request_domains"
    by (simp add: DomainSynthesis_def Let_def requested_names_def request_domains_def)
  assume "orchestrate p policy user_ref names = Completed r"
  then obtain ss where "parse_streams names = Some ss" "domain_reports r = merge_streams p policy ss Map.empty"
    using orchestrate_Completed by blast
  then show "\<exists>streams. parse_streams names = Some streams \<and> dom (domain_reports r) = set streams"
    by (simp add: dom_merge_streams)
qed

lemma search_rate_limited:
  assumes "\<forall>n. search p s n = Inl RateLimited"
  shows "search_with_retry p left attempt s = Inl StreamDegraded"
  using assms by (induction left arbitrary: attempt) simp_all

lemma run_stream_rate_limited:
  assumes "\<forall>n. search p s n = Inl RateLimited"
  shows "run_stream p policy s = \<lparr> report_stream = s, items = [], degraded = True \<rparr>"
  using search_rate_limited [OF assms] by (simp add: run_stream_def)

lemma run_stream_success:
  assumes "search_with_retry p (max_attempts policy) 0 t = Inr cs"
  shows "run_stream p policy t = \<lparr> report_stream = t, items = stream_items p t cs, degraded = False \<rparr>"
  using assms by (simp add: run_stream_def)

text \<open>
  Claim C3. When the search provider answers \<open>RateLimited\<close> at every call for one
  requested stream, and the final write succeeds, the run completes; the report of that
  stream is empty and marked degraded, and every other requested stream whose search
  succeeds within its attempts has the full report its own stages produce.
\<close>

theorem rate_limited_stream_degrades_alone:
  assumes "parse_streams names = Some streams"
    and "s \<in> set streams"
    and "\<forall>n. search p s n = Inl RateLimited"
    and "\<forall>m ta. \<exists>stored. createReport p user_ref m ta = Inr stored"
  shows "\<exists>r. orchestrate p policy user_ref names = Completed r
           \<and> domain_reports r s = Some \<lparr> report_stream = s, items = [], degraded = True \<rparr>
           \<and> (\<forall>t \<in> set streams. \<forall>cs. search_with_retry p (max_attempts policy) 0 t = Inr cs \<longrightarrow>
                 domain_reports r t
                   = Some \<lparr> report_stream = t, items = stream_items p t cs, degraded = False \<rparr>)"
proof -
  let ?merged = "\<lparr> merged_reports = merge_streams p policy streams Map.empty \<rparr>"
  from assms(4) obtain paths rid where
    stored: "createReport p user_ref ?merged (synthesize p ?merged) = Inr (paths, rid)"
    by (metis surj_pair)
  let ?r = "\<lparr> run_status = ''Completed'', domain_reports = merge_streams p policy streams Map.empty,
              final_tips_alerts = synthesize p ?merged, storage_result = paths, run_report_id = rid \<rparr>"
  from assms(2) have ne: "streams \<noteq> []" by auto
  have run: "orchestrate p policy user_ref names = Completed ?r"
    using assms(1) ne stored by (simp add: orchestrate_def Let_def)
  have deg: "domain_reports ?r s = Some \<lparr> report_stream = s, items = [], degraded = True \<rparr>"
    using assms(2) run_stream_rate_limited [OF assms(3)] by (simp add: merge_streams_lookup)
  have others: "\<forall>t \<in> set streams. \<forall>cs. search_with_retry p (max_attempts policy) 0 t = Inr cs \<longrightarrow>
                 domain_reports ?r t
                   = Some \<lparr> report_stream = t, items = stream_items p t cs, degraded = False \<rparr>"
    by (simp add: merge_streams_lookup run_stream_success)
  from run deg others show ?thesis by blast
qed

lemma example_parse: "parse_streams example_names = Some [Legal, Political, Financial]"
  by (simp add: example_names_def requested_names_def request_domains_def parse_stream_def)

lemma example_search_ok:
  "s \<noteq> Political \<Longrightarrow> search_with_retry example_providers (max_attempts example_policy) 0 s = Inr [example_candidate]"
  by (simp add: example_policy_def example_providers_def numeral_3_eq_3)

lemma example_items: "stream_items example_providers s [example_candidate] = [example_item s]"
  by (simp add: stream_items_def categorization_stage_def writer_stage_def ingestion_stage_def
      verification_stage_def enrichment_stage_def List.map_filter_simps
      example_providers_def example_item_def)

theorem merged_report_has_requested_keys_witness:
  "\<exists>r. orchestrate example_providers example_policy ''demo@play.pl'' example_names = Completed r
        \<and> dom (domain_reports r) = {Legal, Political, Financial}"
proof -
  obtain r where r: "orchestrate example_providers example_policy ''demo@play.pl'' example_names = Completed r"
    by (simp add: orchestrate_def example_parse Let_def example_providers_def)
  with merged_report_has_requested_keys [where p = example_providers and policy = example_policy
      and user_ref = "''demo@play.pl''" and names = example_names and r = r]
  have "dom (domain_reports r) = {Legal, Political, Financial}"
    by (auto simp: example_parse)
  with r show ?thesis by blast
qed

theorem rate_limited_stream_degrades_alone_witness:
  "parse_streams example_names = Some [Legal, Political, Financial]
   \<and> search example_providers Political 0 = Inl RateLimited
   \<and> search_with_retry example_providers (max_attempts example_policy) 0 Legal = Inr [example_candidate]
   \<and> (\<exists>r. orchestrate example_providers example_policy ''demo@play.pl'' example_names = Completed r
        \<and> domain_reports r Political = Some \<lparr> report_stream = Political, items = [], degraded = True \<rparr>
        \<and> domain_reports r Legal = Some \<lparr> report_stream = Legal, items = [example_item Legal], degraded = False \<rparr>
        \<and> domain_reports r Financial
            = Some \<lparr> report_stream = Financial, items = [example_item Financial], degraded = False \<rparr>)"
proof -
  have h3: "\<forall>n. search example_providers Political n = Inl RateLimited"
    by (simp add: example_providers_def)
  have h4: "\<forall>m ta. \<exists>stored. createReport example_providers ''demo@play.pl'' m ta = Inr stored"
    by (simp add: example_providers_def)
  have h2: "Political \<in> set [Legal, Political, Financial]" by simp
  from rate_limited_stream_degrades_alone [OF example_parse h2 h3 h4, of example_policy]
  obtain r where r: "orchestrate example_providers example_policy ''demo@play.pl'' example_names = Completed r"
      "domain_reports r Political = Some \<lparr> report_stream = Political, items = [], degraded = True \<rparr>"
      and others: "\<forall>t \<in> set [Legal, Political, Financial]. \<forall>cs.
         search_with_retry example_providers (max_attempts example_policy) 0 t = Inr cs \<longrightarrow>
           domain_reports r t
             = Some \<lparr> report_stream = t, items = stream_items example_providers t cs, degraded = False \<rparr>"
    by blast
  from others have "domain_reports r Legal = Some \<lparr> report_stream = Legal, items = [example_item Legal], degraded = False \<rparr>"
    and "domain_reports r Financial = Some \<lparr> report_stream = Financial, items = [example_item Financial], degraded = False \<rparr>"
    by (simp_all add: example_search_ok example_items)
  with r h3 show ?thesis
    by (auto simp: example_parse example_search_ok)
qed

end
